theory Spec2Isabelle
  imports Complex_Main
begin

section \<open>JavaScript values used by the playback performance suite\<close>

text \<open>
  A JavaScript number is either a finite value, one of the two infinities, or NaN. Finite
  values are kept as exact rationals: frame counts, the playback speeds
  \<open>0.25 \<dots> 2\<close> and the literals \<open>1\<close>, \<open>2\<close>, \<open>15\<close>, \<open>25\<close> are exactly representable;
  the rounding of IEEE doubles (for the literal \<open>0.45\<close> and for quotients of frame counts)
  and the sign of zero are outside this model.
\<close>

datatype jsnum = Num rat | PosInfinity | NegInfinity | NaN

text \<open>The relational operators \<open><=\<close> and \<open>>\<close> on numbers: every comparison with NaN is false.\<close>

fun js_le :: "jsnum \<Rightarrow> jsnum \<Rightarrow> bool" where
  "js_le NaN _ = False"
| "js_le _ NaN = False"
| "js_le (Num a) (Num b) = (a \<le> b)"
| "js_le NegInfinity _ = True"
| "js_le _ PosInfinity = True"
| "js_le PosInfinity _ = False"
| "js_le _ NegInfinity = False"

fun js_gt :: "jsnum \<Rightarrow> jsnum \<Rightarrow> bool" where
  "js_gt NaN _ = False"
| "js_gt _ NaN = False"
| "js_gt (Num a) (Num b) = (b < a)"
| "js_gt NegInfinity _ = False"
| "js_gt _ PosInfinity = False"
| "js_gt PosInfinity _ = True"
| "js_gt _ NegInfinity = True"

text \<open>
  The operator \<open>/\<close>: division by zero does not raise, it yields an infinity or NaN.
\<close>

fun js_div :: "jsnum \<Rightarrow> jsnum \<Rightarrow> jsnum" where
  "js_div (Num a) (Num b) =
     (if b \<noteq> 0 then Num (a / b)
      else if a = 0 then NaN
      else if 0 < a then PosInfinity else NegInfinity)"
| "js_div NaN _ = NaN"
| "js_div _ NaN = NaN"
| "js_div (Num a) PosInfinity = Num 0"
| "js_div (Num a) NegInfinity = Num 0"
| "js_div PosInfinity (Num b) = (if 0 \<le> b then PosInfinity else NegInfinity)"
| "js_div NegInfinity (Num b) = (if 0 \<le> b then NegInfinity else PosInfinity)"
| "js_div PosInfinity _ = NaN"
| "js_div NegInfinity _ = NaN"

datatype jsval = JUndefined | JNull | JBool bool | JNum jsnum | JStr string

fun js_typeof :: "jsval \<Rightarrow> string" where
  "js_typeof JUndefined = ''undefined''"
| "js_typeof JNull = ''object''"
| "js_typeof (JBool b) = ''boolean''"
| "js_typeof (JNum n) = ''number''"
| "js_typeof (JStr s) = ''string''"

fun js_truthy :: "jsval \<Rightarrow> bool" where
  "js_truthy JUndefined = False"
| "js_truthy JNull = False"
| "js_truthy (JBool b) = b"
| "js_truthy (JNum (Num r)) = (r \<noteq> 0)"
| "js_truthy (JNum NaN) = False"
| "js_truthy (JNum _) = True"
| "js_truthy (JStr s) = (s \<noteq> [])"

text \<open>The operator \<open>||\<close>: the left operand when it is truthy, the right one otherwise.\<close>

definition js_or :: "jsval \<Rightarrow> jsval \<Rightarrow> jsval" where
  "js_or a b = (if js_truthy a then a else b)"

subsection \<open>Conversion to strings\<close>

definition digit_char :: "nat \<Rightarrow> char" where
  "digit_char d = ''0123456789'' ! (d mod 10)"

fun nat_to_string :: "nat \<Rightarrow> string" where
  "nat_to_string n =
     (if n < 10 then [digit_char n] else nat_to_string (n div 10) @ [digit_char (n mod 10)])"

declare nat_to_string.simps [simp del]

text \<open>
  The digits after the decimal point of \<open>r\<close> with \<open>0 \<le> r < 1\<close>, at most \<open>k\<close> of them.
\<close>

fun frac_digits :: "nat \<Rightarrow> rat \<Rightarrow> string" where
  "frac_digits 0 r = []"
| "frac_digits (Suc k) r =
     (if r = 0 then []
      else (let d = nat \<lfloor>r * 10\<rfloor> in digit_char d # frac_digits k (r * 10 - of_nat d)))"

text \<open>
  Number-to-string conversion. Integers and short terminating decimals, which are all the
  numbers this suite prints, give their plain decimal expansion. (An expansion that does
  not terminate is cut after 20 digits, and no exponent notation is produced.)
\<close>

fun number_to_string :: "jsnum \<Rightarrow> string" where
  "number_to_string NaN = ''NaN''"
| "number_to_string PosInfinity = ''Infinity''"
| "number_to_string NegInfinity = ''-Infinity''"
| "number_to_string (Num r) =
     (let a = \<bar>r\<bar>; whole = nat \<lfloor>a\<rfloor>; fr = a - of_nat whole
      in (if r < 0 then ''-'' else '''') @ nat_to_string whole @
         (if fr = 0 then '''' else ''.'' @ frac_digits 20 fr))"

declare number_to_string.simps [simp del]

fun js_to_string :: "jsval \<Rightarrow> string" where
  "js_to_string JUndefined = ''undefined''"
| "js_to_string JNull = ''null''"
| "js_to_string (JBool b) = (if b then ''true'' else ''false'')"
| "js_to_string (JNum n) = number_to_string n"
| "js_to_string (JStr s) = s"

text \<open>\<open>s.indexOf(sub) >= 0\<close>: whether \<open>sub\<close> occurs in \<open>s\<close>.\<close>

fun occurs_in :: "string \<Rightarrow> string \<Rightarrow> bool" where
  "occurs_in sub [] = (sub = [])"
| "occurs_in sub (c # cs) = (take (length sub) (c # cs) = sub \<or> occurs_in sub cs)"


section \<open>Host environment\<close>

text \<open>
  The media descriptors the file refers to, \<open>Media.<Codec>.<Name>\<close>. A value of this type
  is the reference to a descriptor object; its contents are read through the table
  \<open>Media\<close> of the environment.
\<close>

datatype media_id =
    AAC_Audio1MB | AAC_AudioNormal | H264_Video1MB
  | VP9_Webgl144p30fps | VP9_Webgl240p30fps | VP9_Webgl360p30fps | VP9_Webgl480p30fps
  | VP9_Webgl720p30fps | VP9_Webgl1080p30fps | VP9_Webgl1440p30fps | VP9_Webgl2160p30fps
  | H264_Webgl144p15fps | H264_Webgl240p30fps | H264_Webgl360p30fps | H264_Webgl480p30fps
  | H264_Webgl720p30fps | H264_Webgl1080p30fps | H264_Webgl1440p30fps | H264_Webgl2160p30fps
  | VP9_Webgl720p60fps | VP9_Webgl1080p60fps | VP9_Webgl1440p60fps | VP9_Webgl2160p60fps
  | H264_Webgl720p60fps | H264_Webgl1080p60fps

record stream =
  codec :: string
  src :: string
  mimetype :: string
  get :: "string \<Rightarrow> jsval"

text \<open>
  What the file takes from its surroundings and does not define: the media table, the
  resolution comparison \<open>util.compareResolutions\<close>, whether \<open>window.MediaSource\<close> exists, and
  \<open>MediaSource.prototype.version\<close>. They are parameters of the model.
\<close>

record env =
  Media :: "media_id \<Rightarrow> stream"
  compareResolutions :: "jsval \<Rightarrow> jsval \<Rightarrow> jsnum"
  windowMediaSource :: bool
  mediaSourceVersion :: string

text \<open>
  The state of the video element as one callback sees it, with the counters that
  \<open>VideoPerformanceMetrics\<close> reads from it.
\<close>

record video =
  paused :: bool
  currentTime :: rat
  supportsVideoPerformanceMetrics :: bool
  getTotalDecodedVideoFrames :: int
  getDroppedVideoFrames :: int

section \<open>Effects\<close>

text \<open>
  A callback's effects are the list of calls it makes, in order: calls of the runner, the
  write of the test's status, and calls of the media objects. Registering a listener
  carries the listener, a function of the video state at the time it is called. The
  helper \<open>setupMse\<close>, which is defined outside this file, is recorded as a single call.
\<close>

datatype target = Video | Ms | VideoSb | AudioSb | VideoXhr | AudioXhr

datatype action =
    RunnerFail string
  | RunnerSucceed
  | RunnerCheckEq jsnum jsnum string
  | RunnerCheckLE jsnum jsnum string
  | RunnerUpdateStatus
  | SetStatus string
  | SetupMse media_id media_id
  | VideoSetPlaybackRate jsnum
  | VideoPlay
  | VideoPause
  | AddEventListener target string "video \<Rightarrow> action list"
  | RemoveEventListener target string
  | NewMediaSource
  | AddSourceBuffer target string
  | VideoSetSrc
  | EndOfStream
  | CreateRequest target string "video \<Rightarrow> action list" "(nat \<times> nat) option"
  | XhrSend target
  | AppendBuffer target target

text \<open>
  The callbacks that the actions \<open>acts\<close> register on \<open>tg\<close> for the event \<open>ev\<close>, run on the
  video state \<open>v\<close> (a request's callback is its \<open>load\<close> listener).
\<close>

fun listener :: "target \<Rightarrow> string \<Rightarrow> video \<Rightarrow> action \<Rightarrow> action list" where
  "listener tg ev v (AddEventListener tg' ev' h) = (if tg' = tg \<and> ev' = ev then h v else [])"
| "listener tg ev v (CreateRequest tg' url h bytes) =
     (if tg' = tg \<and> ev = ''load'' then h v else [])"
| "listener tg ev v _ = []"

definition fire :: "target \<Rightarrow> string \<Rightarrow> video \<Rightarrow> action list \<Rightarrow> action list" where
  "fire tg ev v acts = concat (map (listener tg ev v) acts)"

section \<open>Test descriptors\<close>

record test =
  name :: string
  index :: "nat option"
  passes :: "nat option"
  failures :: "nat option"
  timeouts :: "nat option"
  category :: "jsval option"
  mandatory :: "jsval option"
  title :: "string option"
  start :: "(video \<Rightarrow> action list) option"

text \<open>
  Modelled from the spec: \<open>createTest\<close> belongs to the test harness, which is not part of
  this file. The spec describes its result as a named, categorized unit with mutable
  counters, "an optional \<open>mandatory\<close> flag", a status string and a start entry point: the
  fresh descriptor carries its name, and none of the fields that this file assigns.
\<close>

definition createTest :: "string \<Rightarrow> test" where
  "createTest n =
     \<lparr>name = n, index = None, passes = None, failures = None, timeouts = None,
      category = None, mandatory = None, title = None, start = None\<rparr>"

text \<open>
  \<open>createPerfTest\<close> appends the new descriptor to \<open>tests\<close> and returns it. The returned
  object is the one in the array, so the model returns its position together with the
  new array, and later assignments to its prototype go through \<open>update_proto\<close>.
\<close>

definition createPerfTest :: "string \<Rightarrow> jsval \<Rightarrow> jsval \<Rightarrow> test list \<Rightarrow> nat \<times> test list" where
  "createPerfTest nm category' mandatory' tests =
     (let t = createTest nm;
          t = t\<lparr>index := Some (length tests)\<rparr>;
          t = t\<lparr>passes := Some 0\<rparr>;
          t = t\<lparr>failures := Some 0\<rparr>;
          t = t\<lparr>timeouts := Some 0\<rparr>;
          t = t\<lparr>category := Some (js_or category' (JStr ''Playback Performance''))\<rparr>;
          t = (if js_typeof mandatory' = ''boolean'' then t\<lparr>mandatory := Some mandatory'\<rparr> else t)
      in (length tests, tests @ [t]))"

definition update_proto :: "nat \<Rightarrow> (test \<Rightarrow> test) \<Rightarrow> test list \<Rightarrow> test list" where
  "update_proto r f tests = tests[r := f (tests ! r)]"

section \<open>The helper class \<open>PerfTestUtil_\<close>\<close>

text \<open>
  The helper wraps the live counters of the video element; each method is a function of
  the video state and returns the calls it makes.
\<close>

definition unsupported_message :: string where
  "unsupported_message =
     ''UserAgent needs to support'' @ [CHR 0x0A] @
     ''            'video.getVideoPlaybackQuality' or the combined'' @ [CHR 0x0A] @
     ''            'video.webkitDecodedFrameCount'' @ [CHR 0x27, CHR 0x0A] @
     ''            and 'video.webkitDroppedFrameCount' to execute this test.''"

text \<open>The constructor's call of \<open>getVideoPerfMetrics\<close>.\<close>

definition getVideoPerfMetrics :: "video \<Rightarrow> action list" where
  "getVideoPerfMetrics v =
     (if \<not> supportsVideoPerformanceMetrics v then [RunnerFail unsupported_message] else [])"

definition getTotalDecodedFrames :: "video \<Rightarrow> jsnum" where
  "getTotalDecodedFrames v = Num (of_int (getTotalDecodedVideoFrames v))"

definition getTotalDroppedFrames :: "video \<Rightarrow> jsnum" where
  "getTotalDroppedFrames v = Num (of_int (getDroppedVideoFrames v))"

definition updateVideoPerfMetricsStatus :: "video \<Rightarrow> action list" where
  "updateVideoPerfMetricsStatus v =
     [SetStatus (''('' @ number_to_string (getTotalDroppedFrames v) @ ''/'' @
                 number_to_string (getTotalDecodedFrames v) @ '')''),
      RunnerUpdateStatus]"

definition assertAtLeastOneFrameDecoded :: "video \<Rightarrow> action list" where
  "assertAtLeastOneFrameDecoded v =
     (if js_le (getTotalDecodedFrames v) (Num 0)
      then [SetStatus ''Fail'', RunnerFail ''UserAgent was unable to render any frames.'']
      else [])"

definition assertMaxDroppedFrames :: "jsnum \<Rightarrow> video \<Rightarrow> action list" where
  "assertMaxDroppedFrames maxDroppedFrames v =
     [RunnerCheckLE (getTotalDroppedFrames v) maxDroppedFrames ''Total dropped frames'']"

definition assertMaxDroppedFramesRatio :: "jsnum \<Rightarrow> video \<Rightarrow> action list" where
  "assertMaxDroppedFramesRatio maxRatio v =
     [RunnerCheckLE (js_div (getTotalDroppedFrames v) (getTotalDecodedFrames v)) maxRatio
        ''Total dropped frames / total decoded frames'']"

text \<open>
  Modelled from the spec: the runner belongs to the test harness, which is not part of
  this file. The spec says that a failure is reported "through the runner's
  \<open>fail\<close>/\<open>checkLE\<close> calls" and that \<open>checkLE\<close> fails when its first argument exceeds the
  second, "inclusive boundary". So \<open>fail\<close> always reports a failure, \<open>checkLE(x, y)\<close>
  reports one unless \<open>x <= y\<close>, and \<open>checkEq(x, y)\<close> unless the two numbers are equal.
\<close>

fun reports_failure :: "action \<Rightarrow> bool" where
  "reports_failure (RunnerFail msg) = True"
| "reports_failure (RunnerCheckLE x y msg) = (\<not> js_le x y)"
| "reports_failure (RunnerCheckEq x y msg) = (\<not> (js_le x y \<and> js_le y x))"
| "reports_failure _ = False"

definition fails :: "action list \<Rightarrow> bool" where
  "fails acts = list_ex reports_failure acts"


section \<open>The test generators\<close>

subsection \<open>TotalVideoFrames validation\<close>

text \<open>The function assigned to \<open>start\<close> by \<open>createTotalVideoFramesValidationTest\<close>.\<close>

definition totalVideoFrames_start :: "env \<Rightarrow> media_id \<Rightarrow> jsnum \<Rightarrow> video \<Rightarrow> action list" where
  "totalVideoFrames_start E videoStream frames = (\<lambda>video.
     (let audioStream = AAC_Audio1MB in
      [NewMediaSource] @
      getVideoPerfMetrics video @
      [AddEventListener Ms ''sourceopen'' (\<lambda>_.
         [AddSourceBuffer VideoSb (mimetype (Media E videoStream)),
          AddSourceBuffer AudioSb (mimetype (Media E audioStream))]),
       VideoSetSrc,
       CreateRequest VideoXhr (src (Media E videoStream)) (\<lambda>_.
         [AppendBuffer VideoSb VideoXhr,
          AddEventListener VideoSb ''updateend'' (\<lambda>_.
            [EndOfStream,
             AddEventListener Video ''ended'' (\<lambda>video.
               [RunnerCheckEq (getTotalDecodedFrames video) frames
                  ''playbackQuality.totalVideoFrames'',
                RunnerSucceed])]),
          AddEventListener Video ''timeupdate'' (\<lambda>video.
            updateVideoPerfMetricsStatus video),
          VideoPlay]) None,
       CreateRequest AudioXhr (src (Media E audioStream)) (\<lambda>_.
         [AppendBuffer AudioSb AudioXhr,
          XhrSend VideoXhr]) (Some (0, 131100)),
       XhrSend AudioXhr]))"

definition createTotalVideoFramesValidationTest ::
  "env \<Rightarrow> media_id \<Rightarrow> jsnum \<Rightarrow> test list \<Rightarrow> test list" where
  "createTotalVideoFramesValidationTest E videoStream frames tests =
     (let (test, tests) =
            createPerfTest ''TotalVideoFrames'' (JStr ''Media Playback Quality'') JUndefined tests;
          tests = update_proto test (\<lambda>t. t\<lparr>title := Some ''TotalVideoFrames Validation''\<rparr>) tests;
          tests = update_proto test
                    (\<lambda>t. t\<lparr>start := Some (totalVideoFrames_start E videoStream frames)\<rparr>) tests
      in tests)"

subsection \<open>Frame drop validation\<close>

text \<open>
  \<open>playVideo\<close> registers a \<open>timeupdate\<close> listener that may call \<open>playVideo\<close> again, on the
  second stream. It does so only when the sources of the current and the second stream
  differ, which is no longer the case in that second call.
\<close>

function playVideo :: "env \<Rightarrow> media_id \<Rightarrow> media_id \<Rightarrow> action list" where
  "playVideo E videoStream2 videoStream =
     [SetupMse videoStream AAC_AudioNormal,
      VideoSetPlaybackRate (Num 2.0),
      AddEventListener Video ''timeupdate'' (\<lambda>video.
        updateVideoPerfMetricsStatus video @
        (if \<not> paused video \<and> 15 \<le> currentTime video then
           [RemoveEventListener Video ''timeupdate'',
            VideoPause] @
           assertAtLeastOneFrameDecoded video @
           (let totalDroppedFrames = getTotalDroppedFrames video in
            if js_gt totalDroppedFrames (Num 2) then
              [RunnerSucceed]
            else if src (Media E videoStream2) = src (Media E videoStream) then
              [RunnerFail (''UserAgent produced '' @ number_to_string totalDroppedFrames @
                 '' dropped frames.'')]
            else
              playVideo E videoStream2 videoStream2)
         else [])),
      VideoPlay]"
  by pat_completeness auto
termination
  by (relation "measure (\<lambda>(E, videoStream2, videoStream).
        if src (Media E videoStream2) = src (Media E videoStream) then 0 else 1)") auto

declare playVideo.simps [simp del]

text \<open>The function assigned to \<open>start\<close> by \<open>createFrameDropValidationTest\<close>.\<close>

definition frameDrop_start :: "env \<Rightarrow> media_id \<Rightarrow> media_id \<Rightarrow> video \<Rightarrow> action list" where
  "frameDrop_start E videoStream1 videoStream2 = (\<lambda>video.
     getVideoPerfMetrics video @
     playVideo E videoStream2 videoStream1)"

definition createFrameDropValidationTest ::
  "env \<Rightarrow> media_id \<Rightarrow> media_id \<Rightarrow> test list \<Rightarrow> test list" where
  "createFrameDropValidationTest E videoStream1 videoStream2 tests =
     (let (test, tests) =
            createPerfTest ''FrameDrop'' (JStr ''Media Playback Quality'') JUndefined tests;
          tests = update_proto test (\<lambda>t. t\<lparr>title := Some ''Frame Drop Validation''\<rparr>) tests;
          tests = update_proto test
                    (\<lambda>t. t\<lparr>start := Some (frameDrop_start E videoStream1 videoStream2)\<rparr>) tests
      in tests)"

subsection \<open>Playback performance\<close>

definition isOptionalPlayBackPerfStream :: "env \<Rightarrow> media_id \<Rightarrow> bool" where
  "isOptionalPlayBackPerfStream E videoStream =
     (codec (Media E videoStream) = ''H264'' \<and>
      js_gt (compareResolutions E (get (Media E videoStream) ''resolution'') (JStr ''1080p''))
            (Num 0))"

text \<open>The function assigned to \<open>start\<close> by \<open>createPlaybackPerfTest\<close>.\<close>

definition playbackPerf_start ::
  "media_id \<Rightarrow> jsnum \<Rightarrow> (video \<Rightarrow> bool) \<Rightarrow> (video \<Rightarrow> action list) \<Rightarrow> video \<Rightarrow> action list" where
  "playbackPerf_start videoStream playbackRate stopPlayback assertTest = (\<lambda>video.
     getVideoPerfMetrics video @
     [SetupMse videoStream AAC_AudioNormal,
      VideoSetPlaybackRate playbackRate,
      AddEventListener Video ''timeupdate'' (\<lambda>video.
        updateVideoPerfMetricsStatus video @
        (if stopPlayback video then
           [RemoveEventListener Video ''timeupdate'',
            VideoPause] @
           assertTest video @
           [RunnerSucceed]
         else [])),
      VideoPlay])"

definition createPlaybackPerfTest ::
  "env \<Rightarrow> media_id \<Rightarrow> jsnum \<Rightarrow> jsval \<Rightarrow> (video \<Rightarrow> bool) \<Rightarrow> (video \<Rightarrow> action list) \<Rightarrow> jsval \<Rightarrow>
   test list \<Rightarrow> test list" where
  "createPlaybackPerfTest E videoStream playbackRate category' stopPlayback assertTest mandatory' tests =
     (let mandatory' = (if js_typeof mandatory' \<noteq> ''undefined''
                        then mandatory'
                        else JBool (\<not> isOptionalPlayBackPerfStream E videoStream));
          (test, tests) =
            createPerfTest (''PlaybackPerf'' @ ''.'' @ codec (Media E videoStream) @
                ''.'' @ js_to_string (get (Media E videoStream) ''resolution'') @
                js_to_string (get (Media E videoStream) ''fps'') @ ''@'' @
                number_to_string playbackRate @ ''X'') category' mandatory' tests;
          tests = update_proto test (\<lambda>t. t\<lparr>title := Some ''Playback performance test''\<rparr>) tests;
          tests = update_proto test
                    (\<lambda>t. t\<lparr>start := Some (playbackPerf_start videoStream playbackRate
                                               stopPlayback assertTest)\<rparr>) tests
      in tests)"

section \<open>The suite\<close>

definition mediaFormats :: "media_id list" where
  "mediaFormats =
     [VP9_Webgl144p30fps, VP9_Webgl240p30fps, VP9_Webgl360p30fps, VP9_Webgl480p30fps,
      VP9_Webgl720p30fps, VP9_Webgl1080p30fps, VP9_Webgl1440p30fps, VP9_Webgl2160p30fps,
      H264_Webgl144p15fps, H264_Webgl240p30fps, H264_Webgl360p30fps, H264_Webgl480p30fps,
      H264_Webgl720p30fps, H264_Webgl1080p30fps, H264_Webgl1440p30fps, H264_Webgl2160p30fps]"

definition mediaFormatsHfr :: "media_id list" where
  "mediaFormatsHfr =
     [VP9_Webgl720p60fps, VP9_Webgl1080p60fps, VP9_Webgl1440p60fps, VP9_Webgl2160p60fps,
      H264_Webgl720p60fps, H264_Webgl1080p60fps]"

definition playbackSpeeds :: "jsnum list" where
  "playbackSpeeds = [Num 0.25, Num 0.5, Num 0.75, Num 1, Num 1.25, Num 1.5, Num 1.75, Num 2]"

definition shouldStopPlayback :: "video \<Rightarrow> bool" where
  "shouldStopPlayback video = (\<not> paused video \<and> 15 \<le> currentTime video)"

definition defaultTestAssertion :: "video \<Rightarrow> action list" where
  "defaultTestAssertion perfTestUtil =
     assertAtLeastOneFrameDecoded perfTestUtil @
     assertMaxDroppedFrames (Num 1) perfTestUtil"

definition HFRHighSpeedPlaybackTestAssertion :: "video \<Rightarrow> action list" where
  "HFRHighSpeedPlaybackTestAssertion perfTestUtil =
     assertAtLeastOneFrameDecoded perfTestUtil @
     assertMaxDroppedFramesRatio (Num 0.45) perfTestUtil"

text \<open>
  The two nested \<open>for \<dots> in\<close> loops run over the indices of the arrays, in ascending order,
  the speeds outside and the formats inside.
\<close>

definition sfr_loop :: "env \<Rightarrow> test list \<Rightarrow> test list" where
  "sfr_loop E tests =
     foldl (\<lambda>tests s.
       foldl (\<lambda>tests formatIdx.
         createPlaybackPerfTest E
           (mediaFormats ! formatIdx)
           (playbackSpeeds ! s)
           (JStr ''Playback Performance'')
           shouldStopPlayback
           defaultTestAssertion
           JUndefined tests)
         tests [0..<length mediaFormats])
       tests [0..<length playbackSpeeds]"

definition hfr_loop :: "env \<Rightarrow> test list \<Rightarrow> test list" where
  "hfr_loop E tests =
     foldl (\<lambda>tests s.
       foldl (\<lambda>tests formatIdx.
         createPlaybackPerfTest E
           (mediaFormatsHfr ! formatIdx)
           (playbackSpeeds ! s)
           (JStr ''HFR Playback Performance'')
           shouldStopPlayback
           (if js_le (playbackSpeeds ! s) (Num 1)
            then defaultTestAssertion else HFRHighSpeedPlaybackTestAssertion)
           JUndefined tests)
         tests [0..<length mediaFormatsHfr])
       tests [0..<length playbackSpeeds]"

record suite =
  tests :: "test list"
  info :: string
  fields_ :: "string list"
  viewType :: string

definition PlaybackperfTest :: "env \<Rightarrow> suite" where
  "PlaybackperfTest E =
     (let webkitPrefix = occurs_in ''webkit'' (mediaSourceVersion E);
          tests = [];
          timeout = Num 100000;
          info = ''No MSE Support!'';
          info = (if windowMediaSource E
                  then ''webkit prefix: '' @ js_to_string (JBool webkitPrefix) else info);
          info = info @ '' | Default Timeout: '' @ number_to_string timeout @ ''ms'';
          fields = [''passes'', ''failures'', ''timeouts''];
          tests = createTotalVideoFramesValidationTest E H264_Video1MB (Num 25) tests;
          tests = createFrameDropValidationTest E H264_Webgl1080p60fps VP9_Webgl2160p60fps tests;
          tests = sfr_loop E tests;
          tests = hfr_loop E tests
      in \<lparr>tests = tests, info = info, fields_ = fields, viewType = ''expanded-test-status''\<rparr>)"

section \<open>Closed forms of the generated descriptors\<close>

text \<open>
  The descriptor that \<open>createPerfTest\<close> appends when the array holds \<open>k\<close> descriptors, and
  the one that is in the array once \<open>createPlaybackPerfTest\<close> has assigned its title and its
  \<open>start\<close> function. The proofs show that the generators produce exactly these.
\<close>

definition perfTest_descriptor :: "nat \<Rightarrow> string \<Rightarrow> jsval \<Rightarrow> jsval \<Rightarrow> test" where
  "perfTest_descriptor k nm category' mandatory' =
     \<lparr>name = nm, index = Some k, passes = Some 0, failures = Some 0, timeouts = Some 0,
      category = Some (js_or category' (JStr ''Playback Performance'')),
      mandatory = (case mandatory' of JBool b \<Rightarrow> Some (JBool b) | _ \<Rightarrow> None),
      title = None, start = None\<rparr>"

definition playbackPerf_descriptor ::
  "env \<Rightarrow> nat \<Rightarrow> media_id \<Rightarrow> jsnum \<Rightarrow> jsval \<Rightarrow> (video \<Rightarrow> bool) \<Rightarrow> (video \<Rightarrow> action list) \<Rightarrow> jsval \<Rightarrow> test" where
  "playbackPerf_descriptor E k videoStream playbackRate category' stopPlayback assertTest mandatory' =
     (perfTest_descriptor k
        (''PlaybackPerf.'' @ codec (Media E videoStream) @ ''.'' @
         js_to_string (get (Media E videoStream) ''resolution'') @
         js_to_string (get (Media E videoStream) ''fps'') @ ''@'' @
         number_to_string playbackRate @ ''X'')
        category'
        (if mandatory' = JUndefined then JBool (\<not> isOptionalPlayBackPerfStream E videoStream)
         else mandatory'))
     \<lparr>title := Some ''Playback performance test'',
      start := Some (playbackPerf_start videoStream playbackRate stopPlayback assertTest)\<rparr>"

text \<open>The array after the two calls that create the validation tests.\<close>

definition validation_tests :: "env \<Rightarrow> test list" where
  "validation_tests E =
     createFrameDropValidationTest E H264_Webgl1080p60fps VP9_Webgl2160p60fps
       (createTotalVideoFramesValidationTest E H264_Video1MB (Num 25) [])"

section \<open>A sample environment\<close>

text \<open>
  A media table in which every descriptor carries the codec, resolution and frame rate
  that its name states, and a resolution comparison by the leading number. It is used to
  evaluate the suite on concrete inputs.
\<close>

definition sample_stream :: "string \<Rightarrow> string \<Rightarrow> string \<Rightarrow> rat \<Rightarrow> stream" where
  "sample_stream c file res fps =
     \<lparr>codec = c, src = file,
      mimetype = (if c = ''AAC'' then ''audio/mp4'' else if c = ''H264'' then ''video/mp4''
                  else ''video/webm''),
      get = (\<lambda>attr. if attr = ''resolution'' then JStr res
                     else if attr = ''fps'' then JNum (Num fps) else JUndefined)\<rparr>"

fun sample_Media :: "media_id \<Rightarrow> stream" where
  "sample_Media AAC_Audio1MB = sample_stream ''AAC'' ''audio-1mb.mp4'' '''' 0"
| "sample_Media AAC_AudioNormal = sample_stream ''AAC'' ''audio-normal.mp4'' '''' 0"
| "sample_Media H264_Video1MB = sample_stream ''H264'' ''video-1mb.mp4'' ''360p'' 25"
| "sample_Media VP9_Webgl144p30fps = sample_stream ''VP9'' ''vp9-144p-30fps.webm'' ''144p'' 30"
| "sample_Media VP9_Webgl240p30fps = sample_stream ''VP9'' ''vp9-240p-30fps.webm'' ''240p'' 30"
| "sample_Media VP9_Webgl360p30fps = sample_stream ''VP9'' ''vp9-360p-30fps.webm'' ''360p'' 30"
| "sample_Media VP9_Webgl480p30fps = sample_stream ''VP9'' ''vp9-480p-30fps.webm'' ''480p'' 30"
| "sample_Media VP9_Webgl720p30fps = sample_stream ''VP9'' ''vp9-720p-30fps.webm'' ''720p'' 30"
| "sample_Media VP9_Webgl1080p30fps = sample_stream ''VP9'' ''vp9-1080p-30fps.webm'' ''1080p'' 30"
| "sample_Media VP9_Webgl1440p30fps = sample_stream ''VP9'' ''vp9-1440p-30fps.webm'' ''1440p'' 30"
| "sample_Media VP9_Webgl2160p30fps = sample_stream ''VP9'' ''vp9-2160p-30fps.webm'' ''2160p'' 30"
| "sample_Media H264_Webgl144p15fps = sample_stream ''H264'' ''h264-144p-15fps.mp4'' ''144p'' 15"
| "sample_Media H264_Webgl240p30fps = sample_stream ''H264'' ''h264-240p-30fps.mp4'' ''240p'' 30"
| "sample_Media H264_Webgl360p30fps = sample_stream ''H264'' ''h264-360p-30fps.mp4'' ''360p'' 30"
| "sample_Media H264_Webgl480p30fps = sample_stream ''H264'' ''h264-480p-30fps.mp4'' ''480p'' 30"
| "sample_Media H264_Webgl720p30fps = sample_stream ''H264'' ''h264-720p-30fps.mp4'' ''720p'' 30"
| "sample_Media H264_Webgl1080p30fps = sample_stream ''H264'' ''h264-1080p-30fps.mp4'' ''1080p'' 30"
| "sample_Media H264_Webgl1440p30fps = sample_stream ''H264'' ''h264-1440p-30fps.mp4'' ''1440p'' 30"
| "sample_Media H264_Webgl2160p30fps = sample_stream ''H264'' ''h264-2160p-30fps.mp4'' ''2160p'' 30"
| "sample_Media VP9_Webgl720p60fps = sample_stream ''VP9'' ''vp9-720p-60fps.webm'' ''720p'' 60"
| "sample_Media VP9_Webgl1080p60fps = sample_stream ''VP9'' ''vp9-1080p-60fps.webm'' ''1080p'' 60"
| "sample_Media VP9_Webgl1440p60fps = sample_stream ''VP9'' ''vp9-1440p-60fps.webm'' ''1440p'' 60"
| "sample_Media VP9_Webgl2160p60fps = sample_stream ''VP9'' ''vp9-2160p-60fps.webm'' ''2160p'' 60"
| "sample_Media H264_Webgl720p60fps = sample_stream ''H264'' ''h264-720p-60fps.mp4'' ''720p'' 60"
| "sample_Media H264_Webgl1080p60fps = sample_stream ''H264'' ''h264-1080p-60fps.mp4'' ''1080p'' 60"

fun leading_number :: "nat \<Rightarrow> string \<Rightarrow> nat" where
  "leading_number acc [] = acc"
| "leading_number acc (c # cs) =
     (if c \<in> set ''0123456789''
      then leading_number (acc * 10 + (of_char c - 48)) cs else acc)"

fun sample_compareResolutions :: "jsval \<Rightarrow> jsval \<Rightarrow> jsnum" where
  "sample_compareResolutions (JStr a) (JStr b) =
     Num (of_nat (leading_number 0 a) - of_nat (leading_number 0 b))"
| "sample_compareResolutions _ _ = NaN"

definition sample_env :: env where
  "sample_env =
     \<lparr>Media = sample_Media, compareResolutions = sample_compareResolutions,
      windowMediaSource = True, mediaSourceVersion = ''''\<rparr>"

section \<open>The generators append one descriptor\<close>

lemma js_typeof_undefined: "js_typeof x = ''undefined'' \<longleftrightarrow> x = JUndefined"
  by (cases x) simp_all

lemma createPerfTest_closed:
  "createPerfTest nm category' mandatory' ts =
     (length ts, ts @ [perfTest_descriptor (length ts) nm category' mandatory'])"
  by (cases mandatory')
     (simp_all add: createPerfTest_def createTest_def perfTest_descriptor_def)

lemma update_proto_last:
  "update_proto (length ts) f (ts @ [t]) = ts @ [f t]"
  by (simp add: update_proto_def)

lemma createPlaybackPerfTest_append:
  "createPlaybackPerfTest E videoStream playbackRate category' stopPlayback assertTest mandatory' ts =
     ts @ [playbackPerf_descriptor E (length ts) videoStream playbackRate category' stopPlayback
             assertTest mandatory']"
  by (simp add: createPlaybackPerfTest_def createPerfTest_closed update_proto_last
        playbackPerf_descriptor_def js_typeof_undefined)

lemma createTotalVideoFramesValidationTest_append:
  "createTotalVideoFramesValidationTest E videoStream frames ts =
     ts @ [(perfTest_descriptor (length ts) ''TotalVideoFrames'' (JStr ''Media Playback Quality'')
              JUndefined)
           \<lparr>title := Some ''TotalVideoFrames Validation'',
            start := Some (totalVideoFrames_start E videoStream frames)\<rparr>]"
  by (simp add: createTotalVideoFramesValidationTest_def createPerfTest_closed update_proto_last)

lemma createFrameDropValidationTest_append:
  "createFrameDropValidationTest E videoStream1 videoStream2 ts =
     ts @ [(perfTest_descriptor (length ts) ''FrameDrop'' (JStr ''Media Playback Quality'')
              JUndefined)
           \<lparr>title := Some ''Frame Drop Validation'',
            start := Some (frameDrop_start E videoStream1 videoStream2)\<rparr>]"
  by (simp add: createFrameDropValidationTest_def createPerfTest_closed update_proto_last)

lemma perfTest_descriptor_fields:
  "name (perfTest_descriptor k nm c m) = nm"
  "index (perfTest_descriptor k nm c m) = Some k"
  "passes (perfTest_descriptor k nm c m) = Some 0"
  "failures (perfTest_descriptor k nm c m) = Some 0"
  "timeouts (perfTest_descriptor k nm c m) = Some 0"
  "category (perfTest_descriptor k nm c m) = Some (js_or c (JStr ''Playback Performance''))"
  "mandatory (perfTest_descriptor k nm c m) = (case m of JBool b \<Rightarrow> Some (JBool b) | _ \<Rightarrow> None)"
  "title (perfTest_descriptor k nm c m) = None"
  "start (perfTest_descriptor k nm c m) = None"
  by (simp_all add: perfTest_descriptor_def)

lemma playbackPerf_descriptor_fields:
  "name (playbackPerf_descriptor E k vs r c st a m) =
     ''PlaybackPerf.'' @ codec (Media E vs) @ ''.'' @
     js_to_string (get (Media E vs) ''resolution'') @
     js_to_string (get (Media E vs) ''fps'') @ ''@'' @ number_to_string r @ ''X''"
  "index (playbackPerf_descriptor E k vs r c st a m) = Some k"
  "passes (playbackPerf_descriptor E k vs r c st a m) = Some 0"
  "failures (playbackPerf_descriptor E k vs r c st a m) = Some 0"
  "timeouts (playbackPerf_descriptor E k vs r c st a m) = Some 0"
  "category (playbackPerf_descriptor E k vs r c st a m) =
     Some (js_or c (JStr ''Playback Performance''))"
  "title (playbackPerf_descriptor E k vs r c st a m) = Some ''Playback performance test''"
  "start (playbackPerf_descriptor E k vs r c st a m) = Some (playbackPerf_start vs r st a)"
  by (simp_all add: playbackPerf_descriptor_def perfTest_descriptor_fields)

lemma playbackPerf_descriptor_mandatory:
  "mandatory (playbackPerf_descriptor E k vs r c st a m) =
     (case m of
        JUndefined \<Rightarrow> Some (JBool (\<not> isOptionalPlayBackPerfStream E vs))
      | JBool b \<Rightarrow> Some (JBool b)
      | _ \<Rightarrow> None)"
  by (cases m) (simp_all add: playbackPerf_descriptor_def perfTest_descriptor_fields)

lemma playbackPerf_start_inject:
  assumes "playbackPerf_start vs r st a = playbackPerf_start vs' r' st' a'"
  shows "vs = vs'" and "r = r'"
    and "st v \<Longrightarrow> a v = a' v"
proof -
  let ?v0 = "\<lparr>paused = False, currentTime = 15, supportsVideoPerformanceMetrics = True,
      getTotalDecodedVideoFrames = 0, getDroppedVideoFrames = 0\<rparr>"
  have eq: "playbackPerf_start vs r st a ?v0 = playbackPerf_start vs' r' st' a' ?v0"
    using assms by simp
  then show "vs = vs'" and "r = r'"
    by (simp_all add: playbackPerf_start_def getVideoPerfMetrics_def)
  from eq have h: "(\<lambda>video. updateVideoPerfMetricsStatus video @
        (if st video then [RemoveEventListener Video ''timeupdate'', VideoPause] @ a video @ [RunnerSucceed] else [])) =
     (\<lambda>video. updateVideoPerfMetricsStatus video @
        (if st' video then [RemoveEventListener Video ''timeupdate'', VideoPause] @ a' video @ [RunnerSucceed] else []))"
    by (simp add: playbackPerf_start_def getVideoPerfMetrics_def)
  show "a v = a' v" if "st v"
    using fun_cong [OF h, of v] that by (simp split: if_splits)
qed

lemma assertions_differ: "defaultTestAssertion \<noteq> HFRHighSpeedPlaybackTestAssertion"
proof
  assume "defaultTestAssertion = HFRHighSpeedPlaybackTestAssertion"
  then have "defaultTestAssertion
      \<lparr>paused = False, currentTime = 15, supportsVideoPerformanceMetrics = True,
      getTotalDecodedVideoFrames = 1, getDroppedVideoFrames = 0\<rparr> =
     HFRHighSpeedPlaybackTestAssertion \<lparr>paused = False, currentTime = 15, supportsVideoPerformanceMetrics = True,
      getTotalDecodedVideoFrames = 1, getDroppedVideoFrames = 0\<rparr>"
    by simp
  then show False
    by (simp add: defaultTestAssertion_def HFRHighSpeedPlaybackTestAssertion_def
          assertAtLeastOneFrameDecoded_def assertMaxDroppedFrames_def
          assertMaxDroppedFramesRatio_def getTotalDecodedFrames_def)
qed

lemma playbackPerf_start_assertions_differ:
  "playbackPerf_start vs r shouldStopPlayback defaultTestAssertion \<noteq>
   playbackPerf_start vs' r' shouldStopPlayback HFRHighSpeedPlaybackTestAssertion"
proof
  assume eq: "playbackPerf_start vs r shouldStopPlayback defaultTestAssertion =
   playbackPerf_start vs' r' shouldStopPlayback HFRHighSpeedPlaybackTestAssertion"
  let ?v = "\<lparr>paused = False, currentTime = 15, supportsVideoPerformanceMetrics = True,
      getTotalDecodedVideoFrames = 1, getDroppedVideoFrames = 0\<rparr>"
  have "shouldStopPlayback ?v" by (simp add: shouldStopPlayback_def)
  from playbackPerf_start_inject(3) [OF eq this]
  show False
    by (simp add: defaultTestAssertion_def HFRHighSpeedPlaybackTestAssertion_def
          assertAtLeastOneFrameDecoded_def assertMaxDroppedFrames_def
          assertMaxDroppedFramesRatio_def getTotalDecodedFrames_def)
qed

lemma totalVideoFrames_start_neq:
  "totalVideoFrames_start E vs fr \<noteq> playbackPerf_start vs' r st a"
proof
  assume "totalVideoFrames_start E vs fr = playbackPerf_start vs' r st a"
  from fun_cong [OF this, of "\<lparr>paused = False, currentTime = 15, supportsVideoPerformanceMetrics = True,
      getTotalDecodedVideoFrames = 1, getDroppedVideoFrames = 0\<rparr>"]
  show False
    by (simp add: totalVideoFrames_start_def playbackPerf_start_def getVideoPerfMetrics_def)
qed

lemma frameDrop_start_eq_stream:
  assumes "frameDrop_start E vs1 vs2 = playbackPerf_start vs' r st a"
  shows "vs1 = vs'"
  using fun_cong [OF assms, of "\<lparr>paused = False, currentTime = 15, supportsVideoPerformanceMetrics = True,
      getTotalDecodedVideoFrames = 1, getDroppedVideoFrames = 0\<rparr>"]
  by (subst (asm) frameDrop_start_def, subst (asm) playVideo.simps)
     (simp add: playbackPerf_start_def getVideoPerfMetrics_def)

lemma distinct_mediaFormats: "distinct mediaFormats"
  by (simp add: mediaFormats_def)

lemma distinct_playbackSpeeds: "distinct playbackSpeeds"
  by (simp add: playbackSpeeds_def)

lemma mediaFormats_disjoint: "f \<in> set mediaFormats \<Longrightarrow> f \<notin> set mediaFormatsHfr"
  by (auto simp add: mediaFormats_def mediaFormatsHfr_def)

section \<open>Loops that append\<close>

text \<open>
  A loop whose body appends a block of fixed length to the array, computed from the
  array's length and the loop variable, yields the concatenation of the blocks; for two
  nested loops that append one element per inner step, the element at each position is
  known.
\<close>

lemma length_concat_blocks:
  "(\<And>j. j < m \<Longrightarrow> length (F j) = n) \<Longrightarrow> length (concat (map F [0..<m])) = m * n"
  by (induction m) simp_all

lemma block_index_less:
  fixes i j m n :: nat
  assumes "j < m" "i < n"
  shows "j * n + i < m * n"
proof -
  have "j * n + i < Suc j * n" using assms(2) by simp
  also have "\<dots> \<le> m * n" using assms(1) by (intro mult_le_mono1) simp
  finally show ?thesis .
qed

lemma nth_concat_blocks:
  "(\<And>j. j < m \<Longrightarrow> length (F j) = n) \<Longrightarrow> j < m \<Longrightarrow> i < n \<Longrightarrow>
     concat (map F [0..<m]) ! (j * n + i) = F j ! i"
proof (induction m)
  case 0
  then show ?case by simp
next
  case (Suc m)
  have len: "length (concat (map F [0..<m])) = m * n"
    using Suc.prems(1) by (simp add: length_concat_blocks)
  show ?case
  proof (cases "j < m")
    case True
    then have "j * n + i < m * n"
      using Suc.prems(3) by (rule block_index_less)
    with True Suc len show ?thesis by (simp add: nth_append)
  next
    case False
    with Suc.prems(2) have "j = m" by simp
    with len show ?thesis by (simp add: nth_append)
  qed
qed

lemma foldl_blocks:
  assumes step: "\<And>ts x. step ts x = ts @ B (length ts) x"
    and len: "\<And>k x. length (B k x) = n"
  shows "foldl step ts xs =
           ts @ concat (map (\<lambda>j. B (length ts + j * n) (xs ! j)) [0..<length xs])"
proof (induction xs rule: rev_induct)
  case Nil
  then show ?case by simp
next
  case (snoc x xs)
  have l: "length (concat (map (\<lambda>j. B (length ts + j * n) (xs ! j)) [0..<length xs])) = length xs * n"
    by (rule length_concat_blocks) (rule len)
  have m: "map (\<lambda>j. B (length ts + j * n) ((xs @ [x]) ! j)) [0..<length xs] =
                 map (\<lambda>j. B (length ts + j * n) (xs ! j)) [0..<length xs]"
    by (simp add: nth_append)
  have "foldl step ts (xs @ [x]) = step (foldl step ts xs) x" by simp
  also have "\<dots> = (ts @ concat (map (\<lambda>j. B (length ts + j * n) (xs ! j)) [0..<length xs])) @
                     B (length ts + length xs * n) x"
    by (simp only: snoc step length_append l)
  also have "\<dots> = ts @ concat (map (\<lambda>j. B (length ts + j * n) ((xs @ [x]) ! j)) [0..<length (xs @ [x])])"
    by (simp only: m length_append_singleton upt_Suc_append[OF le0] map_append concat_append
          list.map concat.simps append_Nil2 append_assoc nth_append_length)
  finally show ?case .
qed

lemma nested_foldl_closed:
  assumes step: "\<And>s ts x. step s ts x = ts @ [d s (length ts) x]"
  shows "foldl (\<lambda>ts s. foldl (step s) ts xs) ts ss =
           ts @ concat (map (\<lambda>j. concat (map (\<lambda>i. [d (ss ! j) (length ts + j * length xs + i * 1) (xs ! i)])
                                             [0..<length xs]))
                            [0..<length ss])"
proof -
  have inner: "foldl (step s) ts xs =
                 ts @ concat (map (\<lambda>i. [d s (length ts + i * 1) (xs ! i)]) [0..<length xs])" for s ts
    by (rule foldl_blocks [where B = "\<lambda>k x. [d s k x]"]) (simp_all add: step)
  have len: "length (concat (map (\<lambda>i. [d s (k + i * 1) (xs ! i)]) [0..<length xs])) = length xs" for s k
    using length_concat_blocks [where F = "\<lambda>i. [d s (k + i * 1) (xs ! i)]" and n = 1 and m = "length xs"]
    by simp
  show ?thesis
    by (rule foldl_blocks
          [where B = "\<lambda>k s. concat (map (\<lambda>i. [d s (k + i * 1) (xs ! i)]) [0..<length xs])"])
       (simp_all only: inner len)
qed

lemma nested_foldl_length:
  assumes step: "\<And>s ts x. step s ts x = ts @ [d s (length ts) x]"
  shows "length (foldl (\<lambda>ts s. foldl (step s) ts xs) ts ss) = length ts + length ss * length xs"
proof -
  have len: "length (concat (map (\<lambda>i. [d s (k + i * 1) (xs ! i)]) [0..<length xs])) = length xs" for s k
    using length_concat_blocks [where F = "\<lambda>i. [d s (k + i * 1) (xs ! i)]" and n = 1 and m = "length xs"]
    by simp
  show ?thesis
    unfolding nested_foldl_closed [of step d, OF step] length_append
    by (subst length_concat_blocks [where n = "length xs"]) (simp_all only: len)
qed

lemma nested_foldl_nth_old:
  assumes step: "\<And>s ts x. step s ts x = ts @ [d s (length ts) x]"
    and k: "k < length ts"
  shows "foldl (\<lambda>ts s. foldl (step s) ts xs) ts ss ! k = ts ! k"
  unfolding nested_foldl_closed [of step d, OF step] using k by (simp only: nth_append_left)

lemma nested_foldl_nth_new:
  assumes step: "\<And>s ts x. step s ts x = ts @ [d s (length ts) x]"
    and j: "j < length ss" and i: "i < length xs"
  shows "foldl (\<lambda>ts s. foldl (step s) ts xs) ts ss ! (length ts + j * length xs + i) =
           d (ss ! j) (length ts + j * length xs + i) (xs ! i)"
proof -
  let ?F = "\<lambda>j. concat (map (\<lambda>i. [d (ss ! j) (length ts + j * length xs + i * 1) (xs ! i)])
                              [0..<length xs])"
  have len: "length (?F j) = length xs" for j
    using length_concat_blocks
            [where F = "\<lambda>i. [d (ss ! j) (length ts + j * length xs + i * 1) (xs ! i)]"
               and n = 1 and m = "length xs"]
    by simp
  have "foldl (\<lambda>ts s. foldl (step s) ts xs) ts ss ! (length ts + (j * length xs + i)) =
          concat (map ?F [0..<length ss]) ! (j * length xs + i)"
    unfolding nested_foldl_closed [of step d, OF step] by (simp only: nth_append_length_plus)
  also have "\<dots> = ?F j ! i"
    by (rule nth_concat_blocks) (simp_all only: len j i)
  also have "\<dots> = [d (ss ! j) (length ts + j * length xs + i * 1) (xs ! i)] ! 0"
    using nth_concat_blocks
            [where F = "\<lambda>i. [d (ss ! j) (length ts + j * length xs + i * 1) (xs ! i)]"
               and n = 1 and m = "length xs" and j = i and i = 0]
          i
    by simp
  finally show ?thesis by (simp add: add.assoc)
qed

section \<open>The suite, position by position\<close>

lemma length_mediaFormats: "length mediaFormats = 16"
  by (simp add: mediaFormats_def)

lemma length_mediaFormatsHfr: "length mediaFormatsHfr = 6"
  by (simp add: mediaFormatsHfr_def)

lemma length_playbackSpeeds: "length playbackSpeeds = 8"
  by (simp add: playbackSpeeds_def)

lemma length_sfr_loop: "length (sfr_loop E ts) = length ts + 128"
  unfolding sfr_loop_def
  by (subst nested_foldl_length
        [where d = "\<lambda>s k formatIdx. playbackPerf_descriptor E k (mediaFormats ! formatIdx)
                      (playbackSpeeds ! s) (JStr ''Playback Performance'') shouldStopPlayback
                      defaultTestAssertion JUndefined"])
     (simp_all add: createPlaybackPerfTest_append length_mediaFormats length_playbackSpeeds)

lemma nth_sfr_loop_old: "k < length ts \<Longrightarrow> sfr_loop E ts ! k = ts ! k"
  unfolding sfr_loop_def
  by (rule nested_foldl_nth_old
        [where d = "\<lambda>s k formatIdx. playbackPerf_descriptor E k (mediaFormats ! formatIdx)
                      (playbackSpeeds ! s) (JStr ''Playback Performance'') shouldStopPlayback
                      defaultTestAssertion JUndefined"])
     (simp_all add: createPlaybackPerfTest_append)

lemma nth_sfr_loop_new:
  assumes "i < 16" "j < 8"
  shows "sfr_loop E ts ! (length ts + j * 16 + i) =
           playbackPerf_descriptor E (length ts + j * 16 + i) (mediaFormats ! i)
             (playbackSpeeds ! j) (JStr ''Playback Performance'') shouldStopPlayback
             defaultTestAssertion JUndefined"
  using nested_foldl_nth_new
          [where d = "\<lambda>s k formatIdx. playbackPerf_descriptor E k (mediaFormats ! formatIdx)
                        (playbackSpeeds ! s) (JStr ''Playback Performance'') shouldStopPlayback
                        defaultTestAssertion JUndefined"
             and step = "\<lambda>s tests formatIdx. createPlaybackPerfTest E (mediaFormats ! formatIdx)
                        (playbackSpeeds ! s) (JStr ''Playback Performance'') shouldStopPlayback
                        defaultTestAssertion JUndefined tests"
             and ss = "[0..<length playbackSpeeds]" and xs = "[0..<length mediaFormats]"
             and j = j and i = i and ts = ts]
        assms
  by (simp add: sfr_loop_def createPlaybackPerfTest_append length_mediaFormats
        length_playbackSpeeds)

lemma length_hfr_loop: "length (hfr_loop E ts) = length ts + 48"
  unfolding hfr_loop_def
  by (subst nested_foldl_length
        [where d = "\<lambda>s k formatIdx. playbackPerf_descriptor E k (mediaFormatsHfr ! formatIdx)
                      (playbackSpeeds ! s) (JStr ''HFR Playback Performance'') shouldStopPlayback
                      (if js_le (playbackSpeeds ! s) (Num 1)
                       then defaultTestAssertion else HFRHighSpeedPlaybackTestAssertion)
                      JUndefined"])
     (simp_all add: createPlaybackPerfTest_append length_mediaFormatsHfr length_playbackSpeeds)

lemma nth_hfr_loop_old: "k < length ts \<Longrightarrow> hfr_loop E ts ! k = ts ! k"
  unfolding hfr_loop_def
  by (rule nested_foldl_nth_old
        [where d = "\<lambda>s k formatIdx. playbackPerf_descriptor E k (mediaFormatsHfr ! formatIdx)
                      (playbackSpeeds ! s) (JStr ''HFR Playback Performance'') shouldStopPlayback
                      (if js_le (playbackSpeeds ! s) (Num 1)
                       then defaultTestAssertion else HFRHighSpeedPlaybackTestAssertion)
                      JUndefined"])
     (simp_all add: createPlaybackPerfTest_append)

lemma nth_hfr_loop_new:
  assumes "i < 6" "j < 8"
  shows "hfr_loop E ts ! (length ts + j * 6 + i) =
           playbackPerf_descriptor E (length ts + j * 6 + i) (mediaFormatsHfr ! i)
             (playbackSpeeds ! j) (JStr ''HFR Playback Performance'') shouldStopPlayback
             (if js_le (playbackSpeeds ! j) (Num 1)
              then defaultTestAssertion else HFRHighSpeedPlaybackTestAssertion)
             JUndefined"
  using nested_foldl_nth_new
          [where d = "\<lambda>s k formatIdx. playbackPerf_descriptor E k (mediaFormatsHfr ! formatIdx)
                        (playbackSpeeds ! s) (JStr ''HFR Playback Performance'') shouldStopPlayback
                        (if js_le (playbackSpeeds ! s) (Num 1)
                         then defaultTestAssertion else HFRHighSpeedPlaybackTestAssertion)
                        JUndefined"
             and step = "\<lambda>s tests formatIdx. createPlaybackPerfTest E (mediaFormatsHfr ! formatIdx)
                        (playbackSpeeds ! s) (JStr ''HFR Playback Performance'') shouldStopPlayback
                        (if js_le (playbackSpeeds ! s) (Num 1)
                         then defaultTestAssertion else HFRHighSpeedPlaybackTestAssertion)
                        JUndefined tests"
             and ss = "[0..<length playbackSpeeds]" and xs = "[0..<length mediaFormatsHfr]"
             and j = j and i = i and ts = ts]
        assms
  by (simp add: hfr_loop_def createPlaybackPerfTest_append length_mediaFormatsHfr
        length_playbackSpeeds)

lemma tests_PlaybackperfTest:
  "tests (PlaybackperfTest E) = hfr_loop E (sfr_loop E (validation_tests E))"
  by (simp add: PlaybackperfTest_def validation_tests_def Let_def)

lemma validation_tests_eq:
  "validation_tests E =
     [(perfTest_descriptor 0 ''TotalVideoFrames'' (JStr ''Media Playback Quality'') JUndefined)
        \<lparr>title := Some ''TotalVideoFrames Validation'',
         start := Some (totalVideoFrames_start E H264_Video1MB (Num 25))\<rparr>,
      (perfTest_descriptor 1 ''FrameDrop'' (JStr ''Media Playback Quality'') JUndefined)
        \<lparr>title := Some ''Frame Drop Validation'',
         start := Some (frameDrop_start E H264_Webgl1080p60fps VP9_Webgl2160p60fps)\<rparr>]"
  by (simp add: validation_tests_def createTotalVideoFramesValidationTest_append
        createFrameDropValidationTest_append)

lemma length_validation_tests: "length (validation_tests E) = 2"
  by (simp add: validation_tests_eq)

lemma length_tests: "length (tests (PlaybackperfTest E)) = 178"
  by (simp add: tests_PlaybackperfTest length_hfr_loop length_sfr_loop length_validation_tests)

lemma nth_tests_validation:
  "k < 2 \<Longrightarrow> tests (PlaybackperfTest E) ! k = validation_tests E ! k"
  by (simp add: tests_PlaybackperfTest nth_hfr_loop_old nth_sfr_loop_old length_sfr_loop
        length_validation_tests)

lemma nth_tests_sfr:
  assumes "i < 16" "j < 8"
  shows "tests (PlaybackperfTest E) ! (2 + j * 16 + i) =
           playbackPerf_descriptor E (2 + j * 16 + i) (mediaFormats ! i)
             (playbackSpeeds ! j) (JStr ''Playback Performance'') shouldStopPlayback
             defaultTestAssertion JUndefined"
proof -
  have "2 + j * 16 + i < length (sfr_loop E (validation_tests E))"
    using assms by (simp add: length_sfr_loop length_validation_tests)
  then have "tests (PlaybackperfTest E) ! (2 + j * 16 + i) =
               sfr_loop E (validation_tests E) ! (length (validation_tests E) + j * 16 + i)"
    by (simp add: tests_PlaybackperfTest nth_hfr_loop_old length_validation_tests)
  also note nth_sfr_loop_new [OF assms]
  finally show ?thesis by (simp add: length_validation_tests)
qed

lemma nth_tests_hfr:
  assumes "i < 6" "j < 8"
  shows "tests (PlaybackperfTest E) ! (130 + j * 6 + i) =
           playbackPerf_descriptor E (130 + j * 6 + i) (mediaFormatsHfr ! i)
             (playbackSpeeds ! j) (JStr ''HFR Playback Performance'') shouldStopPlayback
             (if js_le (playbackSpeeds ! j) (Num 1)
              then defaultTestAssertion else HFRHighSpeedPlaybackTestAssertion)
             JUndefined"
  using nth_hfr_loop_new [OF assms, of E "sfr_loop E (validation_tests E)"]
  by (simp add: tests_PlaybackperfTest length_sfr_loop length_validation_tests)

lemma tests_position_cases:
  fixes k :: nat
  assumes "k < 178"
  obtains "k < 2"
  | i j where "i < 16" "j < 8" "k = 2 + j * 16 + i"
  | i j where "i < 6" "j < 8" "k = 130 + j * 6 + i"
proof -
  consider "k < 2" | "2 \<le> k" "k < 130" | "130 \<le> k" by linarith
  then show thesis
  proof cases
    case 1
    then show ?thesis by (rule that(1))
  next
    case 2
    then have "(k - 2) mod 16 < 16" "(k - 2) div 16 < 8"
      "k = 2 + ((k - 2) div 16) * 16 + (k - 2) mod 16" by simp_all
    then show ?thesis by (rule that(2))
  next
    case 3
    with assms have "(k - 130) mod 6 < 6" "(k - 130) div 6 < 8"
      "k = 130 + ((k - 130) div 6) * 6 + (k - 130) mod 6" by simp_all
    then show ?thesis by (rule that(3))
  qed
qed

lemma sfr_start_unique:
  assumes i: "i < 16" and j: "j < 8" and k: "k < 178"
    and st: "start (tests (PlaybackperfTest E) ! k) =
               Some (playbackPerf_start (mediaFormats ! i) (playbackSpeeds ! j)
                       shouldStopPlayback defaultTestAssertion)"
  shows "k = 2 + j * 16 + i"
  using k
proof (cases k rule: tests_position_cases)
  case 1
  then have "k = 0 \<or> k = 1" by auto
  then show ?thesis
  proof
    assume "k = 0"
    with st show ?thesis
      by (simp add: nth_tests_validation validation_tests_eq totalVideoFrames_start_neq)
  next
    assume "k = 1"
    with st have "frameDrop_start E H264_Webgl1080p60fps VP9_Webgl2160p60fps =
                  playbackPerf_start (mediaFormats ! i) (playbackSpeeds ! j)
                       shouldStopPlayback defaultTestAssertion"
      by (simp add: nth_tests_validation validation_tests_eq)
    then have "H264_Webgl1080p60fps = mediaFormats ! i"
      by (rule frameDrop_start_eq_stream)
    moreover have "mediaFormats ! i \<in> set mediaFormats"
      using i by (simp add: length_mediaFormats)
    ultimately show ?thesis
      using mediaFormats_disjoint [of "mediaFormats ! i"] by (simp add: mediaFormatsHfr_def)
  qed
next
  case (2 i' j')
  from st have eq: "playbackPerf_start (mediaFormats ! i') (playbackSpeeds ! j')
                      shouldStopPlayback defaultTestAssertion =
                    playbackPerf_start (mediaFormats ! i) (playbackSpeeds ! j)
                      shouldStopPlayback defaultTestAssertion"
    unfolding 2(3) nth_tests_sfr [OF 2(1,2)] playbackPerf_descriptor_fields by (simp only: option.inject)
  have "mediaFormats ! i' = mediaFormats ! i" "playbackSpeeds ! j' = playbackSpeeds ! j"
    using playbackPerf_start_inject(1,2) [OF eq] by simp_all
  then have "i' = i" "j' = j"
    using i j 2(1,2)
    by (simp_all add: nth_eq_iff_index_eq distinct_mediaFormats distinct_playbackSpeeds
          length_mediaFormats length_playbackSpeeds)
  with 2(3) show ?thesis by simp
next
  case (3 i' j')
  from st have eq: "playbackPerf_start (mediaFormatsHfr ! i') (playbackSpeeds ! j')
                      shouldStopPlayback
                      (if js_le (playbackSpeeds ! j') (Num 1)
                       then defaultTestAssertion else HFRHighSpeedPlaybackTestAssertion) =
                    playbackPerf_start (mediaFormats ! i) (playbackSpeeds ! j)
                      shouldStopPlayback defaultTestAssertion"
    unfolding 3(3) nth_tests_hfr [OF 3(1,2)] playbackPerf_descriptor_fields by (simp only: option.inject)
  have "mediaFormatsHfr ! i' = mediaFormats ! i"
    using playbackPerf_start_inject(1) [OF eq] .
  moreover have "mediaFormats ! i \<in> set mediaFormats"
    using i by (simp add: length_mediaFormats)
  moreover have "mediaFormatsHfr ! i' \<in> set mediaFormatsHfr"
    using 3(1) by (simp add: length_mediaFormatsHfr)
  ultimately show ?thesis
    using mediaFormats_disjoint [of "mediaFormats ! i"] by simp
qed




section \<open>The assertions of the helper class\<close>

text \<open>
  Claim C8. \<open>assertAtLeastOneFrameDecoded\<close> calls the runner's \<open>fail\<close>, and sets the test's
  status to \<open>Fail\<close>, exactly when the total decoded frame count is at most 0; for a count of
  at least 1 it makes no call at all.
\<close>

theorem assertAtLeastOneFrameDecoded_iff:
  "((\<exists>msg. RunnerFail msg \<in> set (assertAtLeastOneFrameDecoded v)) \<longleftrightarrow>
      getTotalDecodedVideoFrames v \<le> 0) \<and>
   (SetStatus ''Fail'' \<in> set (assertAtLeastOneFrameDecoded v) \<longleftrightarrow>
      getTotalDecodedVideoFrames v \<le> 0) \<and>
   (getTotalDecodedVideoFrames v \<le> 0 \<longrightarrow>
      assertAtLeastOneFrameDecoded v =
        [SetStatus ''Fail'', RunnerFail ''UserAgent was unable to render any frames.'']) \<and>
   (1 \<le> getTotalDecodedVideoFrames v \<longrightarrow> assertAtLeastOneFrameDecoded v = [])"
  by (simp add: assertAtLeastOneFrameDecoded_def getTotalDecodedFrames_def)

theorem assertAtLeastOneFrameDecoded_iff_witness:
  "assertAtLeastOneFrameDecoded
     \<lparr>paused = False, currentTime = 15, supportsVideoPerformanceMetrics = True,
      getTotalDecodedVideoFrames = 0, getDroppedVideoFrames = 0\<rparr> =
     [SetStatus ''Fail'', RunnerFail ''UserAgent was unable to render any frames.''] \<and>
   assertAtLeastOneFrameDecoded
     \<lparr>paused = False, currentTime = 15, supportsVideoPerformanceMetrics = True,
      getTotalDecodedVideoFrames = 1, getDroppedVideoFrames = 0\<rparr> = []"
  using assertAtLeastOneFrameDecoded_iff
          [of "\<lparr>paused = False, currentTime = 15, supportsVideoPerformanceMetrics = True,
                getTotalDecodedVideoFrames = 0, getDroppedVideoFrames = 0\<rparr>"]
        assertAtLeastOneFrameDecoded_iff
          [of "\<lparr>paused = False, currentTime = 15, supportsVideoPerformanceMetrics = True,
                getTotalDecodedVideoFrames = 1, getDroppedVideoFrames = 0\<rparr>"]
  by simp

text \<open>
  Claim C4. \<open>assertMaxDroppedFrames(max)\<close> makes one \<open>checkLE\<close> call, with the dropped frame
  count first and \<open>max\<close> second; it reports a failure exactly when the count is greater than
  \<open>max\<close>, so a count equal to \<open>max\<close> passes. With \<open>max = 1\<close> the counts 0 and 1 pass and every
  count from 2 on fails.
\<close>

theorem assertMaxDroppedFrames_iff:
  "assertMaxDroppedFrames (Num mx) v =
     [RunnerCheckLE (Num (of_int (getDroppedVideoFrames v))) (Num mx) ''Total dropped frames''] \<and>
   (fails (assertMaxDroppedFrames (Num mx) v) \<longleftrightarrow> mx < of_int (getDroppedVideoFrames v)) \<and>
   \<not> fails (assertMaxDroppedFrames (Num (of_int (getDroppedVideoFrames v))) v) \<and>
   (getDroppedVideoFrames v \<in> {0, 1} \<longrightarrow> \<not> fails (assertMaxDroppedFrames (Num 1) v)) \<and>
   (2 \<le> getDroppedVideoFrames v \<longrightarrow> fails (assertMaxDroppedFrames (Num 1) v))"
  by (auto simp add: assertMaxDroppedFrames_def getTotalDroppedFrames_def fails_def)

theorem assertMaxDroppedFrames_iff_witness:
  "\<not> fails (assertMaxDroppedFrames (Num 1)
       \<lparr>paused = False, currentTime = 15, supportsVideoPerformanceMetrics = True,
        getTotalDecodedVideoFrames = 450, getDroppedVideoFrames = 1\<rparr>) \<and>
   fails (assertMaxDroppedFrames (Num 1)
       \<lparr>paused = False, currentTime = 15, supportsVideoPerformanceMetrics = True,
        getTotalDecodedVideoFrames = 450, getDroppedVideoFrames = 2\<rparr>)"
  using assertMaxDroppedFrames_iff
          [of 1 "\<lparr>paused = False, currentTime = 15, supportsVideoPerformanceMetrics = True,
                  getTotalDecodedVideoFrames = 450, getDroppedVideoFrames = 1\<rparr>"]
        assertMaxDroppedFrames_iff
          [of 1 "\<lparr>paused = False, currentTime = 15, supportsVideoPerformanceMetrics = True,
                  getTotalDecodedVideoFrames = 450, getDroppedVideoFrames = 2\<rparr>"]
  by (simp add: fails_def)



section \<open>The generated descriptors\<close>

text \<open>
  Claim C1. For every media format of the standard-format table (16 entries) and every one
  of the 8 playback speeds, exactly one descriptor of the suite plays that format at that
  speed, and its name is \<open>PlaybackPerf.\<close> followed by the codec, a dot, the resolution, the
  frame rate, \<open>@\<close>, the speed and \<open>X\<close>.
\<close>

theorem sfr_tests_generated_once:
  assumes "f \<in> set mediaFormats" and "s \<in> set playbackSpeeds"
  shows "length mediaFormats = 16 \<and> length playbackSpeeds = 8 \<and>
         length (tests (PlaybackperfTest E)) = 2 + 16 * 8 + 6 * 8 \<and>
         map number_to_string playbackSpeeds =
           [''0.25'', ''0.5'', ''0.75'', ''1'', ''1.25'', ''1.5'', ''1.75'', ''2''] \<and>
         (\<exists>!k. k < length (tests (PlaybackperfTest E)) \<and>
                start (tests (PlaybackperfTest E) ! k) =
                  Some (playbackPerf_start f s shouldStopPlayback defaultTestAssertion)) \<and>
         (\<forall>k < length (tests (PlaybackperfTest E)).
            start (tests (PlaybackperfTest E) ! k) =
              Some (playbackPerf_start f s shouldStopPlayback defaultTestAssertion) \<longrightarrow>
            name (tests (PlaybackperfTest E) ! k) =
              ''PlaybackPerf.'' @ codec (Media E f) @ ''.'' @
              js_to_string (get (Media E f) ''resolution'') @
              js_to_string (get (Media E f) ''fps'') @ ''@'' @ number_to_string s @ ''X'')"
proof -
  from assms obtain i j where i: "i < 16" "f = mediaFormats ! i"
    and j: "j < 8" "s = playbackSpeeds ! j"
    by (auto simp add: in_set_conv_nth length_mediaFormats length_playbackSpeeds)
  let ?k = "2 + j * 16 + i"
  have k: "?k < 178" using i(1) j(1) by simp
  have nth: "tests (PlaybackperfTest E) ! ?k =
               playbackPerf_descriptor E ?k f s (JStr ''Playback Performance'')
                 shouldStopPlayback defaultTestAssertion JUndefined"
    using nth_tests_sfr [OF i(1) j(1)] i(2) j(2) by simp
  have uniq: "k = ?k" if "k < 178"
    "start (tests (PlaybackperfTest E) ! k) =
       Some (playbackPerf_start f s shouldStopPlayback defaultTestAssertion)" for k
    using sfr_start_unique [OF i(1) j(1) that(1)] that(2) i(2) j(2) by simp
  have ex: "\<exists>!k. k < length (tests (PlaybackperfTest E)) \<and>
                start (tests (PlaybackperfTest E) ! k) =
                  Some (playbackPerf_start f s shouldStopPlayback defaultTestAssertion)"
  proof (rule ex1I [where a = ?k])
    show "?k < length (tests (PlaybackperfTest E)) \<and>
          start (tests (PlaybackperfTest E) ! ?k) =
            Some (playbackPerf_start f s shouldStopPlayback defaultTestAssertion)"
      using k by (simp only: length_tests nth playbackPerf_descriptor_fields simp_thms)
  next
    fix k
    assume "k < length (tests (PlaybackperfTest E)) \<and>
          start (tests (PlaybackperfTest E) ! k) =
            Some (playbackPerf_start f s shouldStopPlayback defaultTestAssertion)"
    then show "k = ?k" using uniq by (simp add: length_tests)
  qed
  have nm: "name (tests (PlaybackperfTest E) ! k) =
              ''PlaybackPerf.'' @ codec (Media E f) @ ''.'' @
              js_to_string (get (Media E f) ''resolution'') @
              js_to_string (get (Media E f) ''fps'') @ ''@'' @ number_to_string s @ ''X''"
    if "k < length (tests (PlaybackperfTest E))"
      "start (tests (PlaybackperfTest E) ! k) =
              Some (playbackPerf_start f s shouldStopPlayback defaultTestAssertion)" for k
  proof -
    have "k = ?k" using uniq that by (simp add: length_tests)
    then show ?thesis by (simp only: nth playbackPerf_descriptor_fields)
  qed
  have strings: "map number_to_string playbackSpeeds =
           [''0.25'', ''0.5'', ''0.75'', ''1'', ''1.25'', ''1.5'', ''1.75'', ''2'']"
    unfolding playbackSpeeds_def by code_simp
  have len: "length (tests (PlaybackperfTest E)) = 2 + 16 * 8 + 6 * 8"
    by (simp add: length_tests)
  from nm have names:
    "\<forall>k < length (tests (PlaybackperfTest E)).
       start (tests (PlaybackperfTest E) ! k) =
         Some (playbackPerf_start f s shouldStopPlayback defaultTestAssertion) \<longrightarrow>
       name (tests (PlaybackperfTest E) ! k) =
         ''PlaybackPerf.'' @ codec (Media E f) @ ''.'' @
         js_to_string (get (Media E f) ''resolution'') @
         js_to_string (get (Media E f) ''fps'') @ ''@'' @ number_to_string s @ ''X''"
    by blast
  from length_mediaFormats length_playbackSpeeds len strings ex names show ?thesis
    by (intro conjI)
qed

theorem sfr_tests_generated_once_witness:
  "H264_Webgl144p15fps \<in> set mediaFormats \<and> Num 1.25 \<in> set playbackSpeeds \<and>
   start (tests (PlaybackperfTest sample_env) ! 74) =
     Some (playbackPerf_start H264_Webgl144p15fps (Num 1.25) shouldStopPlayback
             defaultTestAssertion) \<and>
   name (tests (PlaybackperfTest sample_env) ! 74) = ''PlaybackPerf.H264.144p15@1.25X''"
proof -
  have f: "H264_Webgl144p15fps \<in> set mediaFormats" by (simp add: mediaFormats_def)
  have s: "Num 1.25 \<in> set playbackSpeeds" by (simp add: playbackSpeeds_def)
  have st: "start (tests (PlaybackperfTest sample_env) ! 74) =
     Some (playbackPerf_start H264_Webgl144p15fps (Num 1.25) shouldStopPlayback
             defaultTestAssertion)"
    using nth_tests_sfr [of 8 4 sample_env]
    by (simp add: playbackPerf_descriptor_fields mediaFormats_def playbackSpeeds_def)
  have "name (tests (PlaybackperfTest sample_env) ! 74) =
          ''PlaybackPerf.'' @ codec (Media sample_env H264_Webgl144p15fps) @ ''.'' @
          js_to_string (get (Media sample_env H264_Webgl144p15fps) ''resolution'') @
          js_to_string (get (Media sample_env H264_Webgl144p15fps) ''fps'') @ ''@'' @
          number_to_string (Num 1.25) @ ''X''"
    using sfr_tests_generated_once [OF f s, of sample_env] st
    by (simp add: length_tests)
  also have "\<dots> = ''PlaybackPerf.H264.144p15@1.25X''"
    by code_simp
  finally show ?thesis using f s st by simp
qed

text \<open>
  Claim C2. A playback performance descriptor created without a \<open>mandatory\<close> argument has
  its mandatory flag false exactly when the stream's codec is \<open>H264\<close> and its resolution
  compares greater than \<open>1080p\<close>, and true in every other case; a boolean \<open>mandatory\<close>
  argument is used as it is, whatever the codec and the resolution.
\<close>

theorem playbackPerf_mandatory:
  "(mandatory (last (createPlaybackPerfTest E videoStream playbackRate category' stopPlayback
                       assertTest JUndefined ts)) =
      Some (JBool (\<not> (codec (Media E videoStream) = ''H264'' \<and>
                       js_gt (compareResolutions E (get (Media E videoStream) ''resolution'')
                                (JStr ''1080p'')) (Num 0))))) \<and>
   (mandatory (last (createPlaybackPerfTest E videoStream playbackRate category' stopPlayback
                       assertTest JUndefined ts)) = Some (JBool False) \<longleftrightarrow>
      codec (Media E videoStream) = ''H264'' \<and>
      js_gt (compareResolutions E (get (Media E videoStream) ''resolution'') (JStr ''1080p''))
        (Num 0)) \<and>
   (mandatory (last (createPlaybackPerfTest E videoStream playbackRate category' stopPlayback
                       assertTest JUndefined ts)) = Some (JBool True) \<longleftrightarrow>
      \<not> (codec (Media E videoStream) = ''H264'' \<and>
         js_gt (compareResolutions E (get (Media E videoStream) ''resolution'') (JStr ''1080p''))
           (Num 0))) \<and>
   mandatory (last (createPlaybackPerfTest E videoStream playbackRate category' stopPlayback
                      assertTest (JBool b) ts)) = Some (JBool b) \<and>
   butlast (createPlaybackPerfTest E videoStream playbackRate category' stopPlayback
              assertTest m ts) = ts"
  by (simp add: createPlaybackPerfTest_append playbackPerf_descriptor_mandatory
        isOptionalPlayBackPerfStream_def)

theorem playbackPerf_mandatory_witness:
  "mandatory (last (createPlaybackPerfTest sample_env H264_Webgl2160p30fps (Num 1)
      (JStr ''Playback Performance'') shouldStopPlayback defaultTestAssertion JUndefined [])) =
     Some (JBool False) \<and>
   mandatory (last (createPlaybackPerfTest sample_env H264_Webgl1080p30fps (Num 1)
      (JStr ''Playback Performance'') shouldStopPlayback defaultTestAssertion JUndefined [])) =
     Some (JBool True) \<and>
   mandatory (last (createPlaybackPerfTest sample_env VP9_Webgl2160p30fps (Num 1)
      (JStr ''Playback Performance'') shouldStopPlayback defaultTestAssertion JUndefined [])) =
     Some (JBool True) \<and>
   mandatory (last (createPlaybackPerfTest sample_env H264_Webgl2160p30fps (Num 1)
      (JStr ''Playback Performance'') shouldStopPlayback defaultTestAssertion (JBool True) [])) =
     Some (JBool True)"
  using playbackPerf_mandatory [of sample_env H264_Webgl2160p30fps "Num 1"
          "JStr ''Playback Performance''" shouldStopPlayback defaultTestAssertion "[]" True]
        playbackPerf_mandatory [of sample_env H264_Webgl1080p30fps "Num 1"
          "JStr ''Playback Performance''" shouldStopPlayback defaultTestAssertion "[]"]
        playbackPerf_mandatory [of sample_env VP9_Webgl2160p30fps "Num 1"
          "JStr ''Playback Performance''" shouldStopPlayback defaultTestAssertion "[]"]
  by (simp add: sample_env_def sample_stream_def)

text \<open>
  Claim C3. A high-frame-rate test runs the strict assertion (at least one frame decoded,
  then at most 1 dropped frame) exactly when its playback speed is at most 1, and the ratio
  assertion (at least one frame decoded, then a dropped ratio of at most 0.45) exactly when
  the speed is greater than 1; a standard-frame-rate test runs the strict assertion at
  every speed.
\<close>

theorem playbackPerf_assertion_selection:
  assumes j: "j < 8" and i: "i < 6" and i': "i' < 16"
  shows
    "start (tests (PlaybackperfTest E) ! (130 + j * 6 + i)) =
       Some (playbackPerf_start (mediaFormatsHfr ! i) (playbackSpeeds ! j) shouldStopPlayback
               (if js_le (playbackSpeeds ! j) (Num 1)
                then defaultTestAssertion else HFRHighSpeedPlaybackTestAssertion)) \<and>
     (start (tests (PlaybackperfTest E) ! (130 + j * 6 + i)) =
        Some (playbackPerf_start (mediaFormatsHfr ! i) (playbackSpeeds ! j) shouldStopPlayback
                defaultTestAssertion) \<longleftrightarrow>
      js_le (playbackSpeeds ! j) (Num 1)) \<and>
     (start (tests (PlaybackperfTest E) ! (130 + j * 6 + i)) =
        Some (playbackPerf_start (mediaFormatsHfr ! i) (playbackSpeeds ! j) shouldStopPlayback
                HFRHighSpeedPlaybackTestAssertion) \<longleftrightarrow>
      js_gt (playbackSpeeds ! j) (Num 1)) \<and>
     start (tests (PlaybackperfTest E) ! (2 + j * 16 + i')) =
       Some (playbackPerf_start (mediaFormats ! i') (playbackSpeeds ! j) shouldStopPlayback
               defaultTestAssertion) \<and>
     defaultTestAssertion v = assertAtLeastOneFrameDecoded v @ assertMaxDroppedFrames (Num 1) v \<and>
     HFRHighSpeedPlaybackTestAssertion v =
       assertAtLeastOneFrameDecoded v @ assertMaxDroppedFramesRatio (Num 0.45) v \<and>
     defaultTestAssertion \<noteq> HFRHighSpeedPlaybackTestAssertion"
proof -
  have gt: "js_gt (playbackSpeeds ! j) (Num 1) \<longleftrightarrow> \<not> js_le (playbackSpeeds ! j) (Num 1)"
  proof -
    have "\<forall>s \<in> set playbackSpeeds. js_gt s (Num 1) \<longleftrightarrow> \<not> js_le s (Num 1)"
      by (simp add: playbackSpeeds_def)
    then show ?thesis using j by (simp add: length_playbackSpeeds)
  qed
  have hfr: "start (tests (PlaybackperfTest E) ! (130 + j * 6 + i)) =
          Some (playbackPerf_start (mediaFormatsHfr ! i) (playbackSpeeds ! j) shouldStopPlayback
                  (if js_le (playbackSpeeds ! j) (Num 1)
                   then defaultTestAssertion else HFRHighSpeedPlaybackTestAssertion))"
    if "i < 6" for i
    by (simp only: nth_tests_hfr [OF that j] playbackPerf_descriptor_fields)
  have sfr: "start (tests (PlaybackperfTest E) ! (2 + j * 16 + i)) =
          Some (playbackPerf_start (mediaFormats ! i) (playbackSpeeds ! j) shouldStopPlayback
                  defaultTestAssertion)"
    if "i < 16" for i
    by (simp only: nth_tests_sfr [OF that j] playbackPerf_descriptor_fields)
  have neq: "playbackPerf_start vs r shouldStopPlayback HFRHighSpeedPlaybackTestAssertion \<noteq>
             playbackPerf_start vs r shouldStopPlayback defaultTestAssertion" for vs r
    using playbackPerf_start_assertions_differ [of vs r vs r] by (rule not_sym)
  have iff_strict:
    "start (tests (PlaybackperfTest E) ! (130 + j * 6 + i)) =
       Some (playbackPerf_start (mediaFormatsHfr ! i) (playbackSpeeds ! j) shouldStopPlayback
               defaultTestAssertion) \<longleftrightarrow>
     js_le (playbackSpeeds ! j) (Num 1)" if "i < 6" for i
    unfolding hfr [OF that] by (simp add: neq)
  have iff_ratio:
    "start (tests (PlaybackperfTest E) ! (130 + j * 6 + i)) =
       Some (playbackPerf_start (mediaFormatsHfr ! i) (playbackSpeeds ! j) shouldStopPlayback
               HFRHighSpeedPlaybackTestAssertion) \<longleftrightarrow>
     js_gt (playbackSpeeds ! j) (Num 1)" if "i < 6" for i
    unfolding hfr [OF that] gt by (simp add: playbackPerf_start_assertions_differ)
  have defs: "defaultTestAssertion v =
                assertAtLeastOneFrameDecoded v @ assertMaxDroppedFrames (Num 1) v"
    "HFRHighSpeedPlaybackTestAssertion v =
       assertAtLeastOneFrameDecoded v @ assertMaxDroppedFramesRatio (Num 0.45) v"
    by (simp_all add: defaultTestAssertion_def HFRHighSpeedPlaybackTestAssertion_def)
  from hfr [OF i] iff_strict [OF i] iff_ratio [OF i] sfr [OF i'] defs assertions_differ
  show ?thesis
    by blast
qed

theorem playbackPerf_assertion_selection_witness:
  "start (tests (PlaybackperfTest sample_env) ! 148) =
     Some (playbackPerf_start VP9_Webgl720p60fps (Num 1) shouldStopPlayback
             defaultTestAssertion) \<and>
   start (tests (PlaybackperfTest sample_env) ! 154) =
     Some (playbackPerf_start VP9_Webgl720p60fps (Num 1.25) shouldStopPlayback
             HFRHighSpeedPlaybackTestAssertion) \<and>
   start (tests (PlaybackperfTest sample_env) ! 82) =
     Some (playbackPerf_start VP9_Webgl144p30fps (Num 1.5) shouldStopPlayback
             defaultTestAssertion)"
  using playbackPerf_assertion_selection [of 3 0 0 sample_env]
        playbackPerf_assertion_selection [of 4 0 0 sample_env]
        playbackPerf_assertion_selection [of 5 0 0 sample_env]
  by (simp add: mediaFormats_def mediaFormatsHfr_def playbackSpeeds_def)

text \<open>
  Claim C9. Every descriptor of the suite's \<open>tests\<close> array has as its \<open>index\<close> its position
  in the array, counted from 0, and its \<open>passes\<close>, \<open>failures\<close> and \<open>timeouts\<close> are 0:
  \<open>createPerfTest\<close> assigns the array's length and the three zeros, and then appends.
\<close>

theorem tests_index_and_counters:
  assumes "k < length (tests (PlaybackperfTest E))"
  shows "index (tests (PlaybackperfTest E) ! k) = Some k \<and>
         passes (tests (PlaybackperfTest E) ! k) = Some 0 \<and>
         failures (tests (PlaybackperfTest E) ! k) = Some 0 \<and>
         timeouts (tests (PlaybackperfTest E) ! k) = Some 0 \<and>
         (\<exists>t. createPerfTest nm category' mandatory' ts = (length ts, ts @ [t]) \<and>
              index t = Some (length ts) \<and> passes t = Some 0 \<and> failures t = Some 0 \<and>
              timeouts t = Some 0)"
proof -
  have k: "k < 178" using assms by (simp add: length_tests)
  have suite: "index (tests (PlaybackperfTest E) ! k) = Some k \<and>
         passes (tests (PlaybackperfTest E) ! k) = Some 0 \<and>
         failures (tests (PlaybackperfTest E) ! k) = Some 0 \<and>
         timeouts (tests (PlaybackperfTest E) ! k) = Some 0"
    using k
  proof (cases k rule: tests_position_cases)
    case 1
    then have "k = 0 \<or> k = 1" by auto
    then show ?thesis
      by (auto simp add: nth_tests_validation validation_tests_eq perfTest_descriptor_fields)
  next
    case (2 i j)
    show ?thesis
      unfolding 2(3) nth_tests_sfr [OF 2(1,2)] playbackPerf_descriptor_fields by simp
  next
    case (3 i j)
    show ?thesis
      unfolding 3(3) nth_tests_hfr [OF 3(1,2)] playbackPerf_descriptor_fields by simp
  qed
  have "createPerfTest nm category' mandatory' ts =
          (length ts, ts @ [perfTest_descriptor (length ts) nm category' mandatory'])"
    by (rule createPerfTest_closed)
  then have "\<exists>t. createPerfTest nm category' mandatory' ts = (length ts, ts @ [t]) \<and>
              index t = Some (length ts) \<and> passes t = Some 0 \<and> failures t = Some 0 \<and>
              timeouts t = Some 0"
    by (simp add: perfTest_descriptor_fields)
  with suite show ?thesis by simp
qed

theorem tests_index_and_counters_witness:
  "177 < length (tests (PlaybackperfTest sample_env)) \<and>
   index (tests (PlaybackperfTest sample_env) ! 177) = Some 177 \<and>
   passes (tests (PlaybackperfTest sample_env) ! 177) = Some 0 \<and>
   failures (tests (PlaybackperfTest sample_env) ! 177) = Some 0 \<and>
   timeouts (tests (PlaybackperfTest sample_env) ! 177) = Some 0"
  using tests_index_and_counters [of 177 sample_env] by (simp add: length_tests)



section \<open>The validation tests at run time\<close>

text \<open>
  Claim C7. The TotalVideoFrames test is created for the 1MB H.264 sample and the frame
  count 25. The listener it registers for the video's \<open>ended\<close> event (inside the
  \<open>updateend\<close> listener of the video source buffer, inside the callback of the video
  request) calls \<open>checkEq\<close> on the decoded frame count and 25, and then \<open>succeed\<close>.
\<close>

theorem totalVideoFrames_ended:
  "name (tests (PlaybackperfTest E) ! 0) = ''TotalVideoFrames'' \<and>
   start (tests (PlaybackperfTest E) ! 0) =
     Some (totalVideoFrames_start E H264_Video1MB (Num 25)) \<and>
   fire Video ''ended'' v3
     (fire VideoSb ''updateend'' v2
        (fire VideoXhr ''load'' v1 (totalVideoFrames_start E H264_Video1MB (Num 25) v0))) =
     [RunnerCheckEq (Num (of_int (getTotalDecodedVideoFrames v3))) (Num 25)
        ''playbackQuality.totalVideoFrames'',
      RunnerSucceed]"
  by (simp add: nth_tests_validation validation_tests_eq perfTest_descriptor_fields
        totalVideoFrames_start_def fire_def getVideoPerfMetrics_def getTotalDecodedFrames_def)

theorem totalVideoFrames_ended_witness:
  "fire Video ''ended''
     \<lparr>paused = False, currentTime = 1, supportsVideoPerformanceMetrics = True,
      getTotalDecodedVideoFrames = 24, getDroppedVideoFrames = 0\<rparr>
     (fire VideoSb ''updateend''
        \<lparr>paused = False, currentTime = 0, supportsVideoPerformanceMetrics = True,
         getTotalDecodedVideoFrames = 0, getDroppedVideoFrames = 0\<rparr>
        (fire VideoXhr ''load''
           \<lparr>paused = True, currentTime = 0, supportsVideoPerformanceMetrics = True,
            getTotalDecodedVideoFrames = 0, getDroppedVideoFrames = 0\<rparr>
           (the (start (tests (PlaybackperfTest sample_env) ! 0))
              \<lparr>paused = True, currentTime = 0, supportsVideoPerformanceMetrics = True,
               getTotalDecodedVideoFrames = 0, getDroppedVideoFrames = 0\<rparr>))) =
     [RunnerCheckEq (Num 24) (Num 25) ''playbackQuality.totalVideoFrames'', RunnerSucceed]"
  using totalVideoFrames_ended
          [of sample_env
            "\<lparr>paused = False, currentTime = 1, supportsVideoPerformanceMetrics = True,
              getTotalDecodedVideoFrames = 24, getDroppedVideoFrames = 0\<rparr>"
            "\<lparr>paused = False, currentTime = 0, supportsVideoPerformanceMetrics = True,
              getTotalDecodedVideoFrames = 0, getDroppedVideoFrames = 0\<rparr>"
            "\<lparr>paused = True, currentTime = 0, supportsVideoPerformanceMetrics = True,
              getTotalDecodedVideoFrames = 0, getDroppedVideoFrames = 0\<rparr>"
            "\<lparr>paused = True, currentTime = 0, supportsVideoPerformanceMetrics = True,
              getTotalDecodedVideoFrames = 0, getDroppedVideoFrames = 0\<rparr>"]
  by simp




end
